theory Spec2Isabelle
  imports Main
begin

section \<open>JSON values as the route handlers see them\<close>

text \<open>
  The handlers of the website read request bodies with \<^verbatim>\<open>await request.json()\<close> and
  never declare the type of what they get, so the model keeps every JSON value.  A number is
  kept as the three observations this code makes of a number: whether it is finite (a
  literal such as \<^verbatim>\<open>1e400\<close> parses to \<^verbatim>\<open>Infinity\<close>), whether it differs from zero (its
  truthiness) and its rendering by \<^verbatim>\<open>Number.prototype.toString\<close>; no arithmetic is done
  anywhere.  An object is the list of its own properties in insertion order, each key once
  (a parser keeps one value per key).
\<close>

datatype number = Number (is_finite: bool) (nonzero: bool) (decimal: string)

datatype json =
    JNull
  | JBool bool
  | JNum number
  | JStr string
  | JArr "json list"
  | JObj "(string \<times> json) list"

text \<open>
  What a \<^verbatim>\<open>try\<close> block can catch.  \<open>TypeError\<close> is raised by the language itself (a
  property read on \<^verbatim>\<open>null\<close> or \<^verbatim>\<open>undefined\<close>, a call of something that is not a
  function, an object without a primitive value); \<open>ReactChildError\<close> is React's
  "Objects are not valid as a React child"; \<open>Thrown s\<close> is any other error, \<open>s\<close> being
  what \<^verbatim>\<open>String(error)\<close> gives.  The engine's wording after the name of a \<open>TypeError\<close>
  is not modelled.
\<close>

datatype exn = TypeError | ReactChildError | Thrown string

fun String_exn :: "exn \<Rightarrow> string" where
  "String_exn TypeError = ''TypeError''"
| "String_exn ReactChildError = ''Error: Objects are not valid as a React child''"
| "String_exn (Thrown s) = s"

text \<open>
  \<^verbatim>\<open>v.k\<close> for a value \<open>v\<close> that is neither \<^verbatim>\<open>null\<close> nor \<^verbatim>\<open>undefined\<close>; \<open>None\<close> is
  \<^verbatim>\<open>undefined\<close>.  It is used only at the keys the handlers name (\<^verbatim>\<open>problem\<close>,
  \<^verbatim>\<open>industry\<close>, \<^verbatim>\<open>formData\<close>, \<^verbatim>\<open>key_metrics\<close>, ...), none of which is a property of a
  built-in prototype, so a string, number, boolean or array has none of them.
\<close>

fun get_prop :: "json \<Rightarrow> string \<Rightarrow> json option" where
  "get_prop (JObj kvs) k = map_of kvs k"
| "get_prop _ k = None"

text \<open>\<^verbatim>\<open>v.k\<close> where \<open>v\<close> itself may be \<^verbatim>\<open>undefined\<close> or \<^verbatim>\<open>null\<close>: the read throws.\<close>

fun read_prop :: "json option \<Rightarrow> string \<Rightarrow> exn + json option" where
  "read_prop None k = Inl TypeError"
| "read_prop (Some JNull) k = Inl TypeError"
| "read_prop (Some v) k = Inr (get_prop v k)"

text \<open>
  \<^verbatim>\<open>const { a, b } = body\<close>: destructuring \<^verbatim>\<open>null\<close> throws, every other JSON value
  can be destructured.
\<close>

fun destructure :: "json \<Rightarrow> exn + json" where
  "destructure JNull = Inl TypeError"
| "destructure v = Inr v"

text \<open>Truthiness, as \<^verbatim>\<open>!x\<close>, \<^verbatim>\<open>x && y\<close> and \<^verbatim>\<open>x || y\<close> test it.\<close>

fun truthy :: "json option \<Rightarrow> bool" where
  "truthy None = False"
| "truthy (Some JNull) = False"
| "truthy (Some (JBool b)) = b"
| "truthy (Some (JNum n)) = nonzero n"
| "truthy (Some (JStr s)) = (s \<noteq> [])"
| "truthy (Some (JArr xs)) = True"
| "truthy (Some (JObj kvs)) = True"

text \<open>
  The conversion a template literal \<^verbatim>\<open>`${v}`\<close> applies.  An array is joined with commas,
  \<^verbatim>\<open>null\<close> elements giving the empty string.  An object parsed from JSON that has an own
  property \<^verbatim>\<open>toString\<close> has lost \<^verbatim>\<open>Object.prototype.toString\<close> to a value that cannot be
  called, and \<^verbatim>\<open>valueOf\<close> gives no primitive: the conversion throws.
\<close>

fun ToString :: "json \<Rightarrow> exn + string"
  and join :: "json list \<Rightarrow> exn + string" where
  "ToString JNull = Inr ''null''"
| "ToString (JBool b) = Inr (if b then ''true'' else ''false'')"
| "ToString (JNum n) = Inr (decimal n)"
| "ToString (JStr s) = Inr s"
| "ToString (JArr xs) = join xs"
| "ToString (JObj kvs) =
     (if map_of kvs ''toString'' = None then Inr ''[object Object]'' else Inl TypeError)"
| "join [] = Inr []"
| "join (x # xs) =
     (case (if x = JNull then Inr [] else ToString x) of
        Inl e \<Rightarrow> Inl e
      | Inr s \<Rightarrow>
          (if xs = [] then Inr s
           else case join xs of Inl e \<Rightarrow> Inl e | Inr t \<Rightarrow> Inr (s @ '','' @ t)))"

fun interpolate :: "json option \<Rightarrow> exn + string" where
  "interpolate None = Inr ''undefined''"
| "interpolate (Some v) = ToString v"

text \<open>
  \<^verbatim>\<open>JSON.stringify(v)\<close> followed by the receiver's parse: a number that is not finite
  is written as \<^verbatim>\<open>null\<close>, at any depth; everything else arrives as it is.
\<close>

fun wire :: "json \<Rightarrow> json"
  and wire_props :: "(string \<times> json) list \<Rightarrow> (string \<times> json) list"
  and wire_list :: "json list \<Rightarrow> json list" where
  "wire JNull = JNull"
| "wire (JBool b) = JBool b"
| "wire (JNum n) = (if is_finite n then JNum n else JNull)"
| "wire (JStr s) = JStr s"
| "wire (JArr xs) = JArr (wire_list xs)"
| "wire (JObj kvs) = JObj (wire_props kvs)"
| "wire_props [] = []"
| "wire_props ((k, v) # kvs) = (k, wire v) # wire_props kvs"
| "wire_list [] = []"
| "wire_list (x # xs) = wire x # wire_list xs"

text \<open>
  The properties of an object literal \<^verbatim>\<open>{ k1, k2, ... }\<close> that hold a value; one that is
  \<^verbatim>\<open>undefined\<close> is not serialised.
\<close>

fun defined_props :: "(string \<times> json option) list \<Rightarrow> (string \<times> json) list" where
  "defined_props [] = []"
| "defined_props ((k, None) # kvs) = defined_props kvs"
| "defined_props ((k, Some v) # kvs) = (k, v) # defined_props kvs"

text \<open>\<^verbatim>\<open>JSON.stringify({ k1, k2, ... })\<close>, as the receiver parses it.\<close>

definition stringify :: "(string \<times> json option) list \<Rightarrow> json" where
  "stringify kvs = wire (JObj (defined_props kvs))"

section \<open>HTTP as the handlers use it\<close>

record http_response =
  status :: nat
  body :: json

text \<open>
  \<^verbatim>\<open>NextResponse.json(data, { status })\<close>; the status is 200 when none is given.  The body
  is \<^verbatim>\<open>JSON.stringify(data)\<close>, as the client parses it.
\<close>

definition NextResponse_json :: "json \<Rightarrow> nat \<Rightarrow> http_response" where
  "NextResponse_json data st = \<lparr>status = st, body = wire data\<rparr>"

text \<open>
  What \<^verbatim>\<open>await fetch(url, { method: 'POST', body })\<close> can give: the promise rejects
  (connection refused, DNS failure, abort), or it resolves to a response with a status, a
  status text and a body that \<^verbatim>\<open>await response.json()\<close> either parses or rejects.
\<close>

record fetch_response =
  http_status :: nat
  statusText :: string
  parsed :: "exn + json"

datatype fetch_outcome = Rejects exn | Resolves fetch_response

text \<open>\<^verbatim>\<open>response.ok\<close> of the Fetch standard: the status is in the range 200 to 299.\<close>

definition ok :: "fetch_response \<Rightarrow> bool" where
  "ok r = (200 \<le> http_status r \<and> http_status r \<le> 299)"

text \<open>
  The service at the other end of a \<^verbatim>\<open>fetch\<close> is a parameter: what it answers to each
  JSON body.  Every \<^verbatim>\<open>fetch\<close> appends the body it sent to the log of outbound calls, which
  is how the model counts them.
\<close>

type_synonym service = "json \<Rightarrow> fetch_outcome"

definition fetch :: "service \<Rightarrow> json \<Rightarrow> json list \<Rightarrow> fetch_outcome \<times> json list" where
  "fetch srv payload log = (srv payload, log @ [payload])"

text \<open>What a handler has done when it returns: its response and the outbound calls it made.\<close>

record handled =
  response :: http_response
  calls :: "json list"

section \<open>The consultation gateway (\<^verbatim>\<open>POST /api/consult\<close>)\<close>

text \<open>The templates of the mock response, with \<open>i\<close> and \<open>c\<close> the interpolated texts.\<close>

definition recommendations_template :: "string \<Rightarrow> string" where
  "recommendations_template i =
     ''Based on your problem in the '' @ i @
     '' industry, I recommend implementing an AI-powered solution with the following components:\<newline>'' @
     ''\<newline>'' @
     ''1. **Natural Language Processing (NLP)** for automated text analysis\<newline>'' @
     ''2. **Machine Learning Models** for pattern recognition and prediction\<newline>'' @
     ''3. **Retrieval-Augmented Generation (RAG)** for context-aware responses\<newline>'' @
     ''4. **Automated Classification** for efficient routing\<newline>'' @
     ''\<newline>'' @
     ''Key Technologies:\<newline>'' @
     ''- Large Language Models (LLMs) for understanding and generation\<newline>'' @
     ''- Vector databases for semantic search\<newline>'' @
     ''- Real-time processing pipeline\<newline>'' @
     ''- Integration with existing systems\<newline>'' @
     ''\<newline>'' @
     ''This solution will address your specific challenges while providing scalability and measurable business impact.''"

definition cost_savings_template :: "string \<Rightarrow> string \<Rightarrow> string" where
  "cost_savings_template c i =
     ''Expected cost reduction of 20-30% through automation. For a '' @ c @
     '' company in '' @ i @
     '', this typically translates to $15-25K monthly savings by reducing manual processing time and operational overhead.''"

definition revenue_potential_text :: string where
  "revenue_potential_text =
     ''Revenue growth potential of 5-10% through improved efficiency and customer satisfaction. '' @
     ''Enhanced capabilities can lead to faster service delivery and better customer retention, '' @
     ''potentially generating an additional $10-20K monthly.''"

definition roi_estimate_text :: string where
  "roi_estimate_text =
     ''Investment: $100-150K for implementation. Expected ROI: 150-200% annually. '' @
     ''Break-even point: 6-9 months. First year savings: $180-300K.''"

definition implementation_timeline_text :: string where
  "implementation_timeline_text =
     ''Total timeline: 4-6 months\<newline>'' @
     ''- Planning & requirements: 2-4 weeks\<newline>'' @
     ''- Development & integration: 8-12 weeks  \<newline>'' @
     ''- Testing & QA: 4-6 weeks\<newline>'' @
     ''- Deployment & training: 2-4 weeks''"

definition key_metrics_list :: "string list" where
  "key_metrics_list =
     [''Cost per transaction reduction'',
      ''Processing time improvement'',
      ''Customer satisfaction score (CSAT)'',
      ''First response time (FRT)'',
      ''Resolution rate'',
      ''ROI percentage'',
      ''User adoption rate'']"

text \<open>
  The object literal \<^verbatim>\<open>mockResponse\<close>, given the texts its template literals
  interpolate.
\<close>

definition mock_object :: "string \<Rightarrow> string \<Rightarrow> json" where
  "mock_object i c =
     JObj
       [(''recommendations'', JStr (recommendations_template i)),
        (''businessImpact'', JObj
           [(''cost_savings'', JStr (cost_savings_template c i)),
            (''revenue_potential'', JStr revenue_potential_text),
            (''roi_estimate'', JStr roi_estimate_text),
            (''implementation_timeline'', JStr implementation_timeline_text),
            (''key_metrics'', JArr (map JStr key_metrics_list))])]"

text \<open>
  Evaluating the literal converts \<^verbatim>\<open>industry\<close>, then \<^verbatim>\<open>companySize\<close>, then
  \<^verbatim>\<open>industry\<close> again (the same text); a conversion that throws leaves the literal unbuilt.
\<close>

definition mockResponse :: "json option \<Rightarrow> json option \<Rightarrow> exn + json" where
  "mockResponse industry companySize =
     (case interpolate industry of
        Inl e \<Rightarrow> Inl e
      | Inr i \<Rightarrow>
          (case interpolate companySize of
             Inl e \<Rightarrow> Inl e
           | Inr c \<Rightarrow> Inr (mock_object i c)))"

text \<open>
  The inner \<^verbatim>\<open>try\<close> block: one \<^verbatim>\<open>fetch\<close> to the Python backend, a throw when the
  response is not \<^verbatim>\<open>ok\<close>, then \<^verbatim>\<open>await response.json()\<close>.  \<open>Inl\<close> is what the inner
  \<^verbatim>\<open>catch\<close> receives.
\<close>

definition delegate :: "service \<Rightarrow> json \<Rightarrow> json list \<Rightarrow> (exn + json) \<times> json list" where
  "delegate srv payload log =
     (case fetch srv payload log of
        (Rejects e, log') \<Rightarrow> (Inl e, log')
      | (Resolves r, log') \<Rightarrow>
          (if \<not> ok r then (Inl (Thrown (''Error: Backend error: '' @ statusText r)), log')
           else (parsed r, log')))"

definition consult_error :: http_response where
  "consult_error =
     NextResponse_json (JObj [(''error'', JStr ''Failed to process consultation request'')]) 500"

text \<open>The body the gateway forwards: \<^verbatim>\<open>JSON.stringify({ problem, industry, companySize, email })\<close>.\<close>

definition consult_payload :: "json \<Rightarrow> json" where
  "consult_payload b =
     stringify
       [(''problem'', get_prop b ''problem''),
        (''industry'', get_prop b ''industry''),
        (''companySize'', get_prop b ''companySize''),
        (''email'', get_prop b ''email'')]"

text \<open>
  What follows the inner \<^verbatim>\<open>catch\<close>: the mock response is built and returned with
  status 200; a throw while building it reaches the outer \<^verbatim>\<open>catch\<close>.
\<close>

definition fallback :: "json option \<Rightarrow> json option \<Rightarrow> http_response" where
  "fallback industry companySize =
     (case mockResponse industry companySize of
        Inl e \<Rightarrow> consult_error
      | Inr mock \<Rightarrow> NextResponse_json mock 200)"

text \<open>
  The handler.  Its argument is what \<^verbatim>\<open>await request.json()\<close> gives: \<open>Inl\<close> when the
  body is not JSON.  The outer \<^verbatim>\<open>catch\<close> turns every throw outside the inner \<^verbatim>\<open>try\<close>
  into the 500 response.  The \<^verbatim>\<open>console\<close> lines have a constant first argument, write to
  the server's console only and cannot throw.
\<close>

definition consult_POST :: "service \<Rightarrow> exn + json \<Rightarrow> handled" where
  "consult_POST srv request_json =
     (case request_json of
        Inl e \<Rightarrow> \<lparr>response = consult_error, calls = []\<rparr>
      | Inr parsed_body \<Rightarrow>
          (case destructure parsed_body of
             Inl e \<Rightarrow> \<lparr>response = consult_error, calls = []\<rparr>
           | Inr b \<Rightarrow>
               (case delegate srv (consult_payload b) [] of
                  (Inr data, log) \<Rightarrow> \<lparr>response = NextResponse_json data 200, calls = log\<rparr>
                | (Inl backendError, log) \<Rightarrow>
                    \<lparr>response = fallback (get_prop b ''industry'') (get_prop b ''companySize''),
                     calls = log\<rparr>)))"

section \<open>The auxiliary routes\<close>

text \<open>
  The identity service behind \<^verbatim>\<open>supabase.auth.signUp\<close> and
  \<^verbatim>\<open>supabase.auth.signInWithPassword\<close>: the promise rejects, or resolves to
  \<^verbatim>\<open>{ data, error }\<close>, where \<open>auth_error\<close> is \<^verbatim>\<open>error.message\<close> when \<^verbatim>\<open>error\<close> is set.
  Each call appends its argument, the object literal the handler builds, to the log of
  outbound calls.  The \<^verbatim>\<open>console\<close> lines of the two routes have a constant first
  argument and cannot throw.
\<close>

record auth_result =
  data_user :: json
  data_session :: json
  auth_error :: "string option"

datatype auth_outcome = AuthRejects exn | AuthResolves auth_result

type_synonym identity = "json \<Rightarrow> auth_outcome"

definition auth_call :: "identity \<Rightarrow> json \<Rightarrow> json list \<Rightarrow> auth_outcome \<times> json list" where
  "auth_call idp credentials log = (idp credentials, log @ [credentials])"

definition error_response :: "string \<Rightarrow> nat \<Rightarrow> http_response" where
  "error_response msg st = NextResponse_json (JObj [(''error'', JStr msg)]) st"

definition internal_error :: "exn \<Rightarrow> http_response" where
  "internal_error e = error_response (''Internal server error: '' @ String_exn e) 500"

text \<open>\<^verbatim>\<open>POST /api/auth/signup\<close>.\<close>

definition signup_POST :: "identity \<Rightarrow> exn + json \<Rightarrow> handled" where
  "signup_POST idp request_json =
     (case request_json of
        Inl e \<Rightarrow> \<lparr>response = internal_error e, calls = []\<rparr>
      | Inr parsed_body \<Rightarrow>
          (case destructure parsed_body of
             Inl e \<Rightarrow> \<lparr>response = internal_error e, calls = []\<rparr>
           | Inr b \<Rightarrow>
               (let email = get_prop b ''email'';
                    password = get_prop b ''password'';
                    fullName = get_prop b ''fullName''
                in if \<not> truthy email \<or> \<not> truthy password \<or> \<not> truthy fullName
                   then \<lparr>response = error_response ''Missing required fields'' 400, calls = []\<rparr>
                   else
                     (case auth_call idp
                             (JObj (defined_props [(''email'', email), (''password'', password),
                                (''options'', Some (JObj [(''data'',
                                   JObj (defined_props [(''full_name'', fullName)]))]))])) [] of
                        (AuthRejects e, log) \<Rightarrow> \<lparr>response = internal_error e, calls = log\<rparr>
                      | (AuthResolves r, log) \<Rightarrow>
                          (case auth_error r of
                             Some message \<Rightarrow>
                               \<lparr>response = error_response
                                  (if message \<noteq> [] then message else ''Signup failed'') 400,
                                calls = log\<rparr>
                           | None \<Rightarrow>
                               \<lparr>response = NextResponse_json
                                  (JObj [(''success'', JBool True), (''user'', data_user r),
                                         (''message'', JStr ''Signup successful!'')]) 201,
                                calls = log\<rparr>)))))"

text \<open>\<^verbatim>\<open>POST /api/auth/login\<close>.\<close>

definition login_POST :: "identity \<Rightarrow> exn + json \<Rightarrow> handled" where
  "login_POST idp request_json =
     (case request_json of
        Inl e \<Rightarrow> \<lparr>response = internal_error e, calls = []\<rparr>
      | Inr parsed_body \<Rightarrow>
          (case destructure parsed_body of
             Inl e \<Rightarrow> \<lparr>response = internal_error e, calls = []\<rparr>
           | Inr b \<Rightarrow>
               (let email = get_prop b ''email'';
                    password = get_prop b ''password''
                in if \<not> truthy email \<or> \<not> truthy password
                   then \<lparr>response = error_response ''Email and password are required'' 400,
                         calls = []\<rparr>
                   else
                     (case auth_call idp
                             (JObj (defined_props [(''email'', email), (''password'', password)]))
                             [] of
                        (AuthRejects e, log) \<Rightarrow> \<lparr>response = internal_error e, calls = log\<rparr>
                      | (AuthResolves r, log) \<Rightarrow>
                          (case auth_error r of
                             Some message \<Rightarrow>
                               \<lparr>response = error_response
                                  (if message \<noteq> [] then message
                                   else ''Invalid email or password'') 401,
                                calls = log\<rparr>
                           | None \<Rightarrow>
                               (if \<not> truthy (Some (data_user r))
                                then \<lparr>response = error_response
                                        ''Login failed - no user data'' 401, calls = log\<rparr>
                                else \<lparr>response = NextResponse_json
                                        (JObj [(''success'', JBool True),
                                               (''user'', data_user r),
                                               (''session'', data_session r)]) 200,
                                      calls = log\<rparr>))))))"

text \<open>
  \<^verbatim>\<open>POST /api/forms/notify\<close>.  After the validation the handler builds one console line,
  \<^verbatim>\<open>`[${type.toUpperCase()}] Submission from ${formData.email}:`\<close>.  Only a string has
  \<^verbatim>\<open>toUpperCase\<close>; on any other value the call throws.  Letters outside ASCII are left as
  they are here: upper-casing turns none of them into \<^verbatim>\<open>%\<close> or into a letter that can
  follow \<^verbatim>\<open>%\<close> in a format.
\<close>

definition upper :: "char \<Rightarrow> char" where
  "upper c =
     (case map_of (zip ''abcdefghijklmnopqrstuvwxyz'' ''ABCDEFGHIJKLMNOPQRSTUVWXYZ'') c of
        None \<Rightarrow> c
      | Some u \<Rightarrow> u)"

fun toUpperCase :: "json option \<Rightarrow> exn + string" where
  "toUpperCase (Some (JStr s)) = Inr (map upper s)"
| "toUpperCase v = Inl TypeError"

definition notify_line :: "json option \<Rightarrow> json option \<Rightarrow> exn + string" where
  "notify_line type formData =
     (case toUpperCase type of
        Inl e \<Rightarrow> Inl e
      | Inr t \<Rightarrow>
          (case read_prop formData ''email'' of
             Inl e \<Rightarrow> Inl e
           | Inr email \<Rightarrow>
               (case interpolate email of
                  Inl e \<Rightarrow> Inl e
                | Inr m \<Rightarrow> Inr (''['' @ t @ ''] Submission from '' @ m @ '':''))))"

text \<open>
  \<^verbatim>\<open>console.log(line, formData)\<close>.  Node formats its arguments with \<^verbatim>\<open>util.format\<close>: a
  first argument that is a string is a format, read from the left up to its last character
  but one.  After \<^verbatim>\<open>%\<close> the next character is taken with it: one of
  \<^verbatim>\<open>s j d O o i f c\<close> is a specifier and uses up the next argument; anything else,
  \<^verbatim>\<open>%\<close> included, is skipped.  Here there is one argument to use, so only the first
  specifier matters.
\<close>

fun first_specifier :: "string \<Rightarrow> char option" where
  "first_specifier (c # d # cs) =
     (if c = CHR ''%''
      then (if d \<in> set ''sjdOoifc'' then Some d else first_specifier cs)
      else first_specifier (d # cs))"
| "first_specifier cs = None"

text \<open>
  \<^verbatim>\<open>%d\<close>, \<^verbatim>\<open>%i\<close> and \<^verbatim>\<open>%f\<close> apply \<^verbatim>\<open>Number\<close>, \<^verbatim>\<open>parseInt\<close> and
  \<^verbatim>\<open>parseFloat\<close> to the argument.  On an object or an array each of them asks for its
  primitive value, which throws exactly when the conversion to text throws; on a string,
  number, boolean, \<^verbatim>\<open>null\<close> or \<^verbatim>\<open>undefined\<close> none throws.  The other specifiers inspect or serialise
  the argument and do not throw, and so does the printing of an argument that no specifier
  used.  \<open>Inl\<close> is what \<^verbatim>\<open>console.log\<close> throws.
\<close>

definition console_log :: "string \<Rightarrow> json option \<Rightarrow> exn + unit" where
  "console_log line arg =
     (case first_specifier line of
        None \<Rightarrow> Inr ()
      | Some d \<Rightarrow>
          (if d \<in> set ''dif''
           then (case interpolate arg of Inl e \<Rightarrow> Inl e | Inr text \<Rightarrow> Inr ())
           else Inr ()))"

definition notify_error :: http_response where
  "notify_error = error_response ''Failed to process submission'' 500"

text \<open>
  The handler.  Every throw inside the \<^verbatim>\<open>try\<close>, of the template literal or of
  \<^verbatim>\<open>console.log\<close>, reaches the \<^verbatim>\<open>catch\<close>, whose own console line has a constant
  first argument.  The handler makes no outbound call.
\<close>

definition notify_POST :: "exn + json \<Rightarrow> handled" where
  "notify_POST request_json =
     (case request_json of
        Inl e \<Rightarrow> \<lparr>response = notify_error, calls = []\<rparr>
      | Inr parsed_body \<Rightarrow>
          (case destructure parsed_body of
             Inl e \<Rightarrow> \<lparr>response = notify_error, calls = []\<rparr>
           | Inr b \<Rightarrow>
               (let formData = get_prop b ''formData'';
                    type = get_prop b ''type''
                in if \<not> truthy formData \<or> \<not> truthy type
                   then \<lparr>response = error_response ''Missing required fields'' 400, calls = []\<rparr>
                   else
                     (case notify_line type formData of
                        Inl e \<Rightarrow> \<lparr>response = notify_error, calls = []\<rparr>
                      | Inr line \<Rightarrow>
                          (case console_log line formData of
                             Inl e \<Rightarrow> \<lparr>response = notify_error, calls = []\<rparr>
                           | Inr done \<Rightarrow>
                               \<lparr>response = NextResponse_json
                                  (JObj [(''success'', JBool True),
                                         (''message'', JStr ''Submission received'')]) 200,
                                calls = []\<rparr>)))))"

section \<open>The submission transport and the renderer (\<^verbatim>\<open>ConsultationForm\<close>)\<close>

text \<open>The component's state: four \<^verbatim>\<open>useState\<close> cells.\<close>

record form_data =
  problem :: string
  industry :: string
  companySize :: string
  email :: string

record form_state =
  formData :: form_data
  loading :: bool
  result :: json
  error :: string

text \<open>\<^verbatim>\<open>JSON.stringify(formData)\<close>, as the endpoint parses it.\<close>

definition form_payload :: "form_data \<Rightarrow> json" where
  "form_payload d =
     JObj [(''problem'', JStr (problem d)), (''industry'', JStr (industry d)),
           (''companySize'', JStr (companySize d)), (''email'', JStr (email d))]"

definition failure_message :: string where
  "failure_message = ''Failed to process consultation. Please try again.''"

text \<open>
  \<^verbatim>\<open>handleSubmit\<close>: the state once the handler has run to its end, and the calls it made.
  The three setters before the \<^verbatim>\<open>try\<close> put the state in \<open>st1\<close>; the \<^verbatim>\<open>catch\<close> sets the
  message; \<^verbatim>\<open>finally\<close> clears \<open>loading\<close>.
\<close>

definition handleSubmit :: "service \<Rightarrow> form_state \<Rightarrow> form_state \<times> json list" where
  "handleSubmit api st =
     (let st1 = st\<lparr>loading := True, error := [], result := JNull\<rparr>;
          failed = st1\<lparr>error := failure_message, loading := False\<rparr>
      in case fetch api (form_payload (formData st)) [] of
           (Rejects e, log) \<Rightarrow> (failed, log)
         | (Resolves r, log) \<Rightarrow>
             (if \<not> ok r then (failed, log)
              else case parsed r of
                     Inl e \<Rightarrow> (failed, log)
                   | Inr data \<Rightarrow> (st1\<lparr>result := data, loading := False\<rparr>, log)))"

text \<open>
  What the page shows for \<^verbatim>\<open>result\<close>.  A node is a text, a labelled block or a bullet.
  \<open>child\<close> is React's treatment of a value in braces: \<^verbatim>\<open>null\<close>, \<^verbatim>\<open>undefined\<close>, booleans
  and the empty string show nothing, strings and numbers show as text, an array shows its
  elements, and a plain object is refused with an error.
\<close>

datatype node = Text string | Block string "node list" | Bullet "node list"

fun child :: "json \<Rightarrow> exn + node list"
  and children :: "json list \<Rightarrow> exn + node list" where
  "child JNull = Inr []"
| "child (JBool b) = Inr []"
| "child (JNum n) = Inr [Text (decimal n)]"
| "child (JStr s) = Inr (if s = [] then [] else [Text s])"
| "child (JArr xs) = children xs"
| "child (JObj kvs) = Inl ReactChildError"
| "children [] = Inr []"
| "children (x # xs) =
     (case child x of
        Inl e \<Rightarrow> Inl e
      | Inr a \<Rightarrow> (case children xs of Inl e \<Rightarrow> Inl e | Inr b \<Rightarrow> Inr (a @ b)))"

fun child_opt :: "json option \<Rightarrow> exn + node list" where
  "child_opt None = Inr []"
| "child_opt (Some v) = child v"

text \<open>\<^verbatim>\<open>v.map(f)\<close>: only an array has \<^verbatim>\<open>map\<close>; on anything else the call throws.\<close>

fun array_map :: "json option \<Rightarrow> exn + json list" where
  "array_map (Some (JArr xs)) = Inr xs"
| "array_map v = Inl TypeError"

text \<open>One block with a text slot, and one with a bulleted list.\<close>

definition text_block :: "string \<Rightarrow> json option \<Rightarrow> exn + node" where
  "text_block label v =
     (case child_opt v of Inl e \<Rightarrow> Inl e | Inr ns \<Rightarrow> Inr (Block label ns))"

fun bullets :: "json list \<Rightarrow> exn + node list" where
  "bullets [] = Inr []"
| "bullets (x # xs) =
     (case child x of
        Inl e \<Rightarrow> Inl e
      | Inr a \<Rightarrow> (case bullets xs of Inl e \<Rightarrow> Inl e | Inr b \<Rightarrow> Inr (Bullet a # b)))"

definition list_block :: "string \<Rightarrow> json list \<Rightarrow> exn + node" where
  "list_block label xs =
     (case bullets xs of Inl e \<Rightarrow> Inl e | Inr ns \<Rightarrow> Inr (Block label ns))"

fun sequence :: "(exn + 'a) list \<Rightarrow> exn + 'a list" where
  "sequence [] = Inr []"
| "sequence (Inl e # rs) = Inl e"
| "sequence (Inr x # rs) = (case sequence rs of Inl e \<Rightarrow> Inl e | Inr xs \<Rightarrow> Inr (x # xs))"

text \<open>
  The block \<^verbatim>\<open>{result.businessImpact && (...)}\<close> for a truthy \<open>bi\<close>.  Evaluating the JSX
  runs the three \<^verbatim>\<open>map\<close> calls, in the order of the source; React then lays the eleven
  blocks out.  The headings are the source's without their pictographs.
\<close>

definition impact_blocks :: "json \<Rightarrow> exn + node list" where
  "impact_blocks bi =
     (case array_map (get_prop bi ''key_metrics'') of
        Inl e \<Rightarrow> Inl e
      | Inr metrics \<Rightarrow>
          (case array_map (get_prop bi ''success_factors'') of
             Inl e \<Rightarrow> Inl e
           | Inr factors \<Rightarrow>
               (case array_map (get_prop bi ''potential_challenges'') of
                  Inl e \<Rightarrow> Inl e
                | Inr challenges \<Rightarrow>
                    sequence
                      [text_block ''Cost Savings'' (get_prop bi ''cost_savings''),
                       text_block ''Revenue Potential'' (get_prop bi ''revenue_potential''),
                       text_block ''Time Savings'' (get_prop bi ''time_savings''),
                       text_block ''ROI Estimate'' (get_prop bi ''roi_estimate''),
                       text_block ''Risk Reduction'' (get_prop bi ''risk_reduction''),
                       text_block ''Competitive Advantage''
                         (get_prop bi ''competitive_advantage''),
                       text_block ''Implementation Timeline''
                         (get_prop bi ''implementation_timeline''),
                       text_block ''Resource Requirements''
                         (get_prop bi ''resource_requirements''),
                       list_block ''Key Success Metrics'' metrics,
                       list_block ''Success Factors'' factors,
                       list_block ''Potential Challenges'' challenges])))"

text \<open>
  The results section \<^verbatim>\<open>{result && (...)}\<close>.  A falsy \<^verbatim>\<open>result\<close> is itself the value
  in braces.  Otherwise come the banner, the recommendations, the impact card when
  \<^verbatim>\<open>result.businessImpact\<close> is truthy (the falsy value itself when it is not), and the
  closing card.
\<close>

definition render_result :: "json \<Rightarrow> exn + node list" where
  "render_result res =
     (if \<not> truthy (Some res) then child res
      else
        (case (case get_prop res ''businessImpact'' of
                 None \<Rightarrow> Inr []
               | Some bi \<Rightarrow>
                   (if truthy (Some bi)
                    then (case impact_blocks bi of
                            Inl e \<Rightarrow> Inl e
                          | Inr bs \<Rightarrow> Inr [Block ''Business Impact Analysis'' bs])
                    else child bi)) of
           Inl e \<Rightarrow> Inl e
         | Inr impact \<Rightarrow>
             (case text_block ''AI Solution Recommendations''
                     (get_prop res ''recommendations'') of
                Inl e \<Rightarrow> Inl e
              | Inr recs \<Rightarrow>
                  Inr ([Block ''Analysis Complete!''
                          [Text ''Your personalized AI consultation is ready''], recs]
                       @ impact
                       @ [Block ''Ready to Implement?'' [Text ''Schedule a Call'']]))))"

text \<open>
  The page and the gateway together: the endpoint \<^verbatim>\<open>/api/consult\<close> that \<^verbatim>\<open>handleSubmit\<close>
  fetches is the gateway, which parses the body the form sent and answers in JSON.
\<close>

definition api_consult :: "service \<Rightarrow> service" where
  "api_consult backend payload =
     (let h = consult_POST backend (Inr payload)
      in Resolves \<lparr>http_status = status (response h), statusText = [],
                   parsed = Inr (body (response h))\<rparr>)"

section \<open>Vocabulary of the properties\<close>

text \<open>The eleven slots of \<^verbatim>\<open>businessImpact\<close> that the renderer reads, in display order.\<close>

definition businessImpact_slots :: "string list" where
  "businessImpact_slots =
     [''cost_savings'', ''revenue_potential'', ''time_savings'', ''roi_estimate'',
      ''risk_reduction'', ''competitive_advantage'', ''implementation_timeline'',
      ''resource_requirements'', ''key_metrics'', ''success_factors'',
      ''potential_challenges'']"

text \<open>The slots that a response body does not have.\<close>

definition missing_slots :: "json \<Rightarrow> string list" where
  "missing_slots res =
     (case get_prop res ''businessImpact'' of
        None \<Rightarrow> businessImpact_slots
      | Some bi \<Rightarrow> filter (\<lambda>k. get_prop bi k = None) businessImpact_slots)"

text \<open>\<open>mentions s p\<close>: the text \<open>p\<close> occurs in \<open>s\<close>, as \<^verbatim>\<open>s.includes(p)\<close> tests it.\<close>

fun startsWith :: "string \<Rightarrow> string \<Rightarrow> bool" where
  "startsWith s [] = True"
| "startsWith [] (p # ps) = False"
| "startsWith (c # cs) (p # ps) = (c = p \<and> startsWith cs ps)"

fun mentions :: "string \<Rightarrow> string \<Rightarrow> bool" where
  "mentions [] p = (p = [])"
| "mentions (c # cs) p = (startsWith (c # cs) p \<or> mentions cs p)"

text \<open>The request of the end-to-end scenario, and a backend that nothing listens on.\<close>

definition scenario_request :: json where
  "scenario_request =
     JObj [(''problem'', JStr ''reduce support cost''), (''industry'', JStr ''SaaS''),
           (''companySize'', JStr ''SMB''), (''email'', JStr ''a@b.com'')]"

definition scenario_form :: form_state where
  "scenario_form =
     \<lparr>formData = \<lparr>problem = ''reduce support cost'', industry = ''SaaS'',
                   companySize = ''SMB'', email = ''a@b.com''\<rparr>,
      loading = False, result = JNull, error = []\<rparr>"

definition unreachable :: service where
  "unreachable payload = Rejects (Thrown ''TypeError: fetch failed'')"

text \<open>A slot of \<^verbatim>\<open>businessImpact\<close> in a response body.\<close>

definition slot :: "json \<Rightarrow> string \<Rightarrow> json option" where
  "slot res k =
     (case get_prop res ''businessImpact'' of None \<Rightarrow> None | Some bi \<Rightarrow> get_prop bi k)"

text \<open>Further inputs of the examples below.\<close>

definition unavailable :: service where
  "unavailable payload =
     Resolves \<lparr>http_status = 503, statusText = ''Service Unavailable'',
               parsed = Inl (Thrown ''SyntaxError: Unexpected token'')\<rparr>"

definition live_data :: json where
  "live_data = JObj [(''recommendations'', JStr ''Automate ticket triage'')]"

definition live :: service where
  "live payload = Resolves \<lparr>http_status = 200, statusText = ''OK'', parsed = Inr live_data\<rparr>"

definition empty_problem_request :: json where
  "empty_problem_request =
     JObj [(''problem'', JStr []), (''industry'', JStr ''SaaS''),
           (''companySize'', JStr ''SMB''), (''email'', JStr ''a@b.com'')]"

definition other_request :: json where
  "other_request =
     JObj [(''problem'', JStr ''cut churn''), (''industry'', JStr ''SaaS''),
           (''companySize'', JStr ''SMB''), (''email'', JStr ''c@d.org'')]"

definition unconvertible_request :: json where
  "unconvertible_request =
     JObj [(''problem'', JStr ''reduce support cost''),
           (''industry'', JObj [(''toString'', JStr ''SaaS'')]),
           (''companySize'', JStr ''SMB''), (''email'', JStr ''a@b.com'')]"

definition signup_request :: json where
  "signup_request =
     JObj [(''email'', JStr ''a@b.com''), (''password'', JStr ''s3cret!''),
           (''fullName'', JStr ''Ada Byron'')]"

definition login_request :: json where
  "login_request = JObj [(''email'', JStr ''a@b.com''), (''password'', JStr ''s3cret!'')]"

definition identity_down :: identity where
  "identity_down credentials = AuthRejects (Thrown ''TypeError: fetch failed'')"

definition identity_refuses :: identity where
  "identity_refuses credentials =
     AuthResolves \<lparr>data_user = JNull, data_session = JNull,
                   auth_error = Some ''User already registered''\<rparr>"

definition notify_boolean_type :: json where
  "notify_boolean_type =
     JObj [(''formData'', JObj [(''email'', JStr ''a@b.com'')]), (''type'', JBool True)]"

definition notify_newsletter :: json where
  "notify_newsletter =
     JObj [(''formData'', JObj [(''email'', JStr ''a@b.com'')]),
           (''type'', JStr ''newsletter'')]"

definition notify_format_request :: json where
  "notify_format_request =
     JObj [(''formData'', JObj [(''email'', JStr ''%d''), (''toString'', JStr ''x'')]),
           (''type'', JStr ''contact'')]"

definition notify_success :: http_response where
  "notify_success =
     \<lparr>status = 200,
      body = JObj [(''success'', JBool True), (''message'', JStr ''Submission received'')]\<rparr>"

section \<open>How the gateway runs\<close>

lemma destructure_non_null: "b \<noteq> JNull \<Longrightarrow> destructure b = Inr b"
  by (cases b) simp_all

lemma delegate_rejected: "srv p = Rejects e \<Longrightarrow> delegate srv p [] = (Inl e, [p])"
  by (simp add: delegate_def fetch_def)

lemma delegate_not_ok:
  "srv p = Resolves r \<Longrightarrow> \<not> ok r \<Longrightarrow>
   delegate srv p [] = (Inl (Thrown (''Error: Backend error: '' @ statusText r)), [p])"
  by (simp add: delegate_def fetch_def)

lemma delegate_ok: "srv p = Resolves r \<Longrightarrow> ok r \<Longrightarrow> delegate srv p [] = (parsed r, [p])"
  by (simp add: delegate_def fetch_def)

lemma delegate_log: "snd (delegate srv p []) = [p]"
  by (cases "srv p") (simp_all add: delegate_def fetch_def)

lemma consult_POST_non_null:
  "b \<noteq> JNull \<Longrightarrow>
   consult_POST srv (Inr b) =
     (case fst (delegate srv (consult_payload b) []) of
        Inr data \<Rightarrow> \<lparr>response = NextResponse_json data 200, calls = [consult_payload b]\<rparr>
      | Inl x \<Rightarrow> \<lparr>response = fallback (get_prop b ''industry'') (get_prop b ''companySize''),
                   calls = [consult_payload b]\<rparr>)"
  using delegate_log [of srv "consult_payload b"]
  by (cases "delegate srv (consult_payload b) []")
     (simp add: consult_POST_def destructure_non_null split: sum.splits)

lemma consult_POST_unparsed:
  "consult_POST srv (Inl e) = \<lparr>response = consult_error, calls = []\<rparr>"
  "consult_POST srv (Inr JNull) = \<lparr>response = consult_error, calls = []\<rparr>"
  by (simp_all add: consult_POST_def)

lemma wire_strings: "wire_list (map JStr xs) = map JStr xs"
  by (induction xs) simp_all

lemma wire_mock_object: "wire (mock_object i c) = mock_object i c"
  by (simp add: mock_object_def wire_strings)

lemma fallback_convertible:
  "interpolate i = Inr a \<Longrightarrow> interpolate c = Inr d \<Longrightarrow>
   fallback i c = \<lparr>status = 200, body = mock_object a d\<rparr>"
  by (simp add: fallback_def mockResponse_def NextResponse_json_def wire_mock_object)

lemma status_fallback: "status (fallback i c) = 200 \<or> status (fallback i c) = 500"
  by (simp add: fallback_def consult_error_def NextResponse_json_def split: sum.splits)

lemma scenario_non_null: "scenario_request \<noteq> JNull"
  by (simp add: scenario_request_def)

lemma scenario_fields:
  "get_prop scenario_request ''industry'' = Some (JStr ''SaaS'')"
  "get_prop scenario_request ''companySize'' = Some (JStr ''SMB'')"
  by (simp_all add: scenario_request_def)

lemma scenario_unreachable:
  "consult_POST unreachable (Inr scenario_request) =
     \<lparr>response = \<lparr>status = 200, body = mock_object ''SaaS'' ''SMB''\<rparr>,
      calls = [consult_payload scenario_request]\<rparr>"
  by (simp add: consult_POST_non_null scenario_non_null delegate_rejected unreachable_def
      scenario_fields fallback_convertible)

section \<open>The slots of the fallback response\<close>

text \<open>
  C1.  The claim: whenever the delegate call fails, the response carries all eleven slots of
  \<^verbatim>\<open>businessImpact\<close>.  The mock response has five.  On the scenario request with the
  backend unreachable, the response with status 200 lacks \<^verbatim>\<open>time_savings\<close>,
  \<^verbatim>\<open>risk_reduction\<close>, \<^verbatim>\<open>competitive_advantage\<close>, \<^verbatim>\<open>resource_requirements\<close>,
  \<^verbatim>\<open>success_factors\<close> and \<^verbatim>\<open>potential_challenges\<close>.
\<close>

theorem fallback_lacks_six_slots:
  "status (response (consult_POST unreachable (Inr scenario_request))) = 200
   \<and> missing_slots (body (response (consult_POST unreachable (Inr scenario_request)))) =
       [''time_savings'', ''risk_reduction'', ''competitive_advantage'',
        ''resource_requirements'', ''success_factors'', ''potential_challenges'']"
  by (simp add: scenario_unreachable mock_object_def missing_slots_def businessImpact_slots_def)

section \<open>The fallback as a function of industry and company size\<close>



section \<open>What flows into the fallback\<close>

text \<open>
  C9.  Two requests (non-null bodies) that both take the fallback path, whatever made the
  delegate call fail, and that agree on \<^verbatim>\<open>industry\<close> and \<^verbatim>\<open>companySize\<close>, get the same
  response body, however they differ elsewhere: \<^verbatim>\<open>problem\<close> and \<^verbatim>\<open>email\<close> do not flow
  into the fallback.
\<close>

theorem fallback_ignores_problem_and_email:
  assumes "a \<noteq> JNull" and "b \<noteq> JNull"
    and "fst (delegate srv (consult_payload a) []) = Inl x"
    and "fst (delegate srv' (consult_payload b) []) = Inl y"
    and "get_prop a ''industry'' = get_prop b ''industry''"
    and "get_prop a ''companySize'' = get_prop b ''companySize''"
  shows "body (response (consult_POST srv (Inr a))) =
         body (response (consult_POST srv' (Inr b)))"
  using assms by (simp add: consult_POST_non_null)

theorem fallback_ignores_problem_and_email_witness:
  "get_prop scenario_request ''problem'' \<noteq> get_prop other_request ''problem''
   \<and> get_prop scenario_request ''email'' \<noteq> get_prop other_request ''email''
   \<and> body (response (consult_POST unavailable (Inr scenario_request))) =
       body (response (consult_POST unavailable (Inr other_request)))"
proof -
  let ?x = "Thrown ''Error: Backend error: Service Unavailable''"
  have h1: "scenario_request \<noteq> JNull" and h2: "other_request \<noteq> JNull"
    by (simp_all add: scenario_request_def other_request_def)
  have h3: "fst (delegate unavailable (consult_payload scenario_request) []) = Inl ?x"
    and h4: "fst (delegate unavailable (consult_payload other_request) []) = Inl ?x"
    by (simp_all add: delegate_def fetch_def unavailable_def ok_def)
  have h5: "get_prop scenario_request ''industry'' = get_prop other_request ''industry''"
    and h6: "get_prop scenario_request ''companySize'' = get_prop other_request ''companySize''"
    by (simp_all add: scenario_request_def other_request_def)
  have "get_prop scenario_request ''problem'' \<noteq> get_prop other_request ''problem''"
    and "get_prop scenario_request ''email'' \<noteq> get_prop other_request ''email''"
    by (simp_all add: scenario_request_def other_request_def)
  with fallback_ignores_problem_and_email
         [of scenario_request other_request unavailable ?x unavailable ?x,
          OF h1 h2 h3 h4 h5 h6]
  show ?thesis by blast
qed

section \<open>Delegate first; its failures are masked\<close>

text \<open>
  C6, as claimed: every failure of the delegate call ends in the fallback with status 200,
  never in an error response, and the status does not tell a live answer from a fallback.
  The fallback is built after the failure, and building it converts \<^verbatim>\<open>industry\<close> and
  \<^verbatim>\<open>companySize\<close> to text.  For a request whose \<^verbatim>\<open>industry\<close> is an object with an own
  \<^verbatim>\<open>toString\<close> property the conversion throws: with the backend unreachable the answer is
  the error response with status 500, with the backend up it is 200.
\<close>

theorem unconvertible_industry_counterexample:
  "response (consult_POST unreachable (Inr unconvertible_request)) = consult_error
   \<and> status consult_error = 500
   \<and> status (response (consult_POST live (Inr unconvertible_request))) = 200"
proof -
  have "unconvertible_request \<noteq> JNull"
    by (simp add: unconvertible_request_def)
  moreover have "fallback (get_prop unconvertible_request ''industry'')
                   (get_prop unconvertible_request ''companySize'') = consult_error"
    by (simp add: unconvertible_request_def fallback_def mockResponse_def)
  moreover have "delegate live (consult_payload unconvertible_request) [] =
                   (Inr live_data, [consult_payload unconvertible_request])"
    by (simp add: delegate_def fetch_def live_def ok_def)
  ultimately show ?thesis
    by (simp add: consult_POST_non_null delegate_rejected unreachable_def consult_error_def
        NextResponse_json_def)
qed

text \<open>
  C6, amended.  For every consultation request whose body parses to a non-null JSON value
  and whose \<^verbatim>\<open>industry\<close> and \<^verbatim>\<open>companySize\<close> are absent or convert to text (every
  string, number, boolean and \<^verbatim>\<open>null\<close> does; an object with an own \<^verbatim>\<open>toString\<close>
  property does not), the gateway makes the delegate call, once and before anything else,
  and answers with status 200 whatever the service does; when the call fails, by a rejected
  \<^verbatim>\<open>fetch\<close> or by a status that is not \<^verbatim>\<open>ok\<close>, the answer is the fallback, never an
  error response.
\<close>

theorem delegate_failure_masked:
  assumes "b \<noteq> JNull"
    and "interpolate (get_prop b ''industry'') = Inr i"
    and "interpolate (get_prop b ''companySize'') = Inr c"
  shows "calls (consult_POST srv (Inr b)) = [consult_payload b]
       \<and> status (response (consult_POST srv (Inr b))) = 200
       \<and> (srv (consult_payload b) = Rejects e
            \<or> (srv (consult_payload b) = Resolves r \<and> \<not> ok r)
          \<longrightarrow> response (consult_POST srv (Inr b)) = \<lparr>status = 200, body = mock_object i c\<rparr>)"
proof -
  have "calls (consult_POST srv (Inr b)) = [consult_payload b]"
    using assms(1) by (simp add: consult_POST_non_null split: sum.splits)
  moreover have "status (response (consult_POST srv (Inr b))) = 200"
    using assms
    by (simp add: consult_POST_non_null fallback_convertible NextResponse_json_def
        split: sum.splits)
  moreover have "response (consult_POST srv (Inr b)) = \<lparr>status = 200, body = mock_object i c\<rparr>"
    if "srv (consult_payload b) = Rejects e
        \<or> (srv (consult_payload b) = Resolves r \<and> \<not> ok r)"
    using that assms
    by (auto simp: consult_POST_non_null delegate_rejected delegate_not_ok fallback_convertible)
  ultimately show ?thesis by blast
qed

theorem delegate_failure_masked_witness:
  "calls (consult_POST unavailable (Inr scenario_request)) = [scenario_request]
   \<and> response (consult_POST unavailable (Inr scenario_request)) =
       \<lparr>status = 200, body = mock_object ''SaaS'' ''SMB''\<rparr>
   \<and> calls (consult_POST live (Inr scenario_request)) = [scenario_request]
   \<and> status (response (consult_POST live (Inr scenario_request))) = 200"
proof -
  let ?r = "\<lparr>http_status = 503, statusText = ''Service Unavailable'',
             parsed = Inl (Thrown ''SyntaxError: Unexpected token'')\<rparr>"
  have h1: "scenario_request \<noteq> JNull"
    by (simp add: scenario_request_def)
  have h2: "interpolate (get_prop scenario_request ''industry'') = Inr ''SaaS''"
    and h3: "interpolate (get_prop scenario_request ''companySize'') = Inr ''SMB''"
    by (simp_all add: scenario_request_def)
  have h4: "unavailable (consult_payload scenario_request) = Resolves ?r \<and> \<not> ok ?r"
    by (simp add: unavailable_def ok_def)
  have h5: "consult_payload scenario_request = scenario_request"
    by (simp add: consult_payload_def stringify_def scenario_request_def)
  from delegate_failure_masked [OF h1 h2 h3, of unavailable _ ?r]
       delegate_failure_masked [OF h1 h2 h3, of live] h4 h5
  show ?thesis by simp
qed

section \<open>No validation of the problem field\<close>

text \<open>
  C2.  The claim: a request whose \<^verbatim>\<open>problem\<close> is empty or missing gets a 4xx response and
  causes no call to the external service.  The signup, login and notify routes check their
  required fields and answer 400 before any call; the gateway never looks at
  \<^verbatim>\<open>problem\<close>.  For the request with the empty problem and the backend unreachable, it
  makes the call, forwarding the empty problem, and answers 200 with the fallback.
\<close>

theorem empty_problem_is_forwarded:
  "get_prop empty_problem_request ''problem'' = Some (JStr [])
   \<and> response (consult_POST unreachable (Inr empty_problem_request)) =
       \<lparr>status = 200, body = mock_object ''SaaS'' ''SMB''\<rparr>
   \<and> calls (consult_POST unreachable (Inr empty_problem_request)) = [empty_problem_request]"
  by (simp add: consult_POST_non_null delegate_rejected unreachable_def fallback_convertible
      empty_problem_request_def consult_payload_def stringify_def)

section \<open>The end-to-end scenario\<close>

text \<open>
  C4, as claimed: on the scenario request with the service unreachable, the recommendations
  text mentions both "SaaS" and "SMB".  The recommendations template interpolates
  \<^verbatim>\<open>industry\<close> only, so "SMB" does not occur in it.
\<close>

theorem scenario_recommendations_counterexample:
  "get_prop (body (response (consult_POST unreachable (Inr scenario_request))))
     ''recommendations'' = Some (JStr (recommendations_template ''SaaS''))
   \<and> \<not> mentions (recommendations_template ''SaaS'') ''SMB''"
  by (simp add: scenario_unreachable mock_object_def recommendations_template_def)

text \<open>
  C4, amended.  On the scenario request with the service unreachable, the gateway answers
  200; the recommendations text mentions "SaaS" (the company size is not interpolated
  there); \<^verbatim>\<open>businessImpact.cost_savings\<close> mentions both "SMB" and "SaaS"; and
  \<^verbatim>\<open>businessImpact.key_metrics\<close> is the ordered list of the seven metric names.
\<close>

theorem scenario_fallback:
  assumes "srv (consult_payload scenario_request) = Rejects e"
  shows "status (response (consult_POST srv (Inr scenario_request))) = 200
       \<and> get_prop (body (response (consult_POST srv (Inr scenario_request))))
            ''recommendations'' = Some (JStr (recommendations_template ''SaaS''))
       \<and> mentions (recommendations_template ''SaaS'') ''SaaS''
       \<and> slot (body (response (consult_POST srv (Inr scenario_request)))) ''cost_savings'' =
            Some (JStr (cost_savings_template ''SMB'' ''SaaS''))
       \<and> mentions (cost_savings_template ''SMB'' ''SaaS'') ''SMB''
       \<and> mentions (cost_savings_template ''SMB'' ''SaaS'') ''SaaS''
       \<and> slot (body (response (consult_POST srv (Inr scenario_request)))) ''key_metrics'' =
            Some (JArr (map JStr key_metrics_list))
       \<and> length key_metrics_list = 7"
proof -
  have "response (consult_POST srv (Inr scenario_request)) =
          \<lparr>status = 200, body = mock_object ''SaaS'' ''SMB''\<rparr>"
    using assms
    by (simp add: consult_POST_non_null scenario_non_null delegate_rejected scenario_fields
        fallback_convertible)
  moreover have "mentions (recommendations_template ''SaaS'') ''SaaS''"
    by (simp add: recommendations_template_def)
  moreover have "mentions (cost_savings_template ''SMB'' ''SaaS'') ''SMB''"
    and "mentions (cost_savings_template ''SMB'' ''SaaS'') ''SaaS''"
    by (simp_all add: cost_savings_template_def)
  moreover have "length key_metrics_list = 7"
    by (simp add: key_metrics_list_def)
  ultimately show ?thesis
    by (simp add: mock_object_def slot_def)
qed

theorem scenario_fallback_witness:
  "status (response (consult_POST unreachable (Inr scenario_request))) = 200
   \<and> slot (body (response (consult_POST unreachable (Inr scenario_request)))) ''key_metrics'' =
       Some (JArr [JStr ''Cost per transaction reduction'', JStr ''Processing time improvement'',
                   JStr ''Customer satisfaction score (CSAT)'',
                   JStr ''First response time (FRT)'', JStr ''Resolution rate'',
                   JStr ''ROI percentage'', JStr ''User adoption rate''])"
proof -
  have "unreachable (consult_payload scenario_request) =
          Rejects (Thrown ''TypeError: fetch failed'')"
    by (simp add: unreachable_def)
  from scenario_fallback [of unreachable, OF this] show ?thesis
    by (simp add: key_metrics_list_def)
qed

section \<open>The submission transport\<close>

lemma handleSubmit_success:
  "api (form_payload (formData st)) = Resolves r \<Longrightarrow> ok r \<Longrightarrow> parsed r = Inr data \<Longrightarrow>
   handleSubmit api st =
     (st\<lparr>loading := False, error := [], result := data\<rparr>, [form_payload (formData st)])"
  by (simp add: handleSubmit_def fetch_def)

lemma handleSubmit_rejected:
  "api (form_payload (formData st)) = Rejects e \<Longrightarrow>
   handleSubmit api st =
     (st\<lparr>loading := False, error := failure_message, result := JNull\<rparr>,
      [form_payload (formData st)])"
  by (simp add: handleSubmit_def fetch_def)

lemma handleSubmit_not_ok:
  "api (form_payload (formData st)) = Resolves r \<Longrightarrow> \<not> ok r \<Longrightarrow>
   handleSubmit api st =
     (st\<lparr>loading := False, error := failure_message, result := JNull\<rparr>,
      [form_payload (formData st)])"
  by (simp add: handleSubmit_def fetch_def)

lemma render_null: "render_result JNull = Inr []"
  by (simp add: render_result_def)

text \<open>
  C7.  When the endpoint answers with a 2xx status and a JSON body, \<^verbatim>\<open>handleSubmit\<close>
  leaves that body, whole, in \<^verbatim>\<open>result\<close>, which is what the results section renders, and
  no error message.  When the \<^verbatim>\<open>fetch\<close> rejects or the status is not 2xx, it leaves the
  generic message in \<^verbatim>\<open>error\<close> and \<^verbatim>\<open>null\<close> in \<^verbatim>\<open>result\<close>, for which the results
  section shows nothing.  Either way one request was sent and \<^verbatim>\<open>loading\<close> is cleared.
\<close>

theorem transport_outcomes:
  "(api (form_payload (formData st)) = Resolves r
      \<and> 200 \<le> http_status r \<and> http_status r \<le> 299 \<and> parsed r = Inr data \<longrightarrow>
      handleSubmit api st =
        (st\<lparr>loading := False, error := [], result := data\<rparr>, [form_payload (formData st)]))
   \<and> (api (form_payload (formData st)) = Rejects e
        \<or> (api (form_payload (formData st)) = Resolves r
            \<and> (http_status r < 200 \<or> 299 < http_status r)) \<longrightarrow>
      handleSubmit api st =
        (st\<lparr>loading := False, error := failure_message, result := JNull\<rparr>,
         [form_payload (formData st)])
      \<and> render_result (result (fst (handleSubmit api st))) = Inr [])"
proof -
  have "handleSubmit api st =
          (st\<lparr>loading := False, error := [], result := data\<rparr>, [form_payload (formData st)])"
    if "api (form_payload (formData st)) = Resolves r
        \<and> 200 \<le> http_status r \<and> http_status r \<le> 299 \<and> parsed r = Inr data"
    using that by (simp add: handleSubmit_success ok_def)
  moreover have "handleSubmit api st =
          (st\<lparr>loading := False, error := failure_message, result := JNull\<rparr>,
           [form_payload (formData st)])"
    if "api (form_payload (formData st)) = Rejects e
        \<or> (api (form_payload (formData st)) = Resolves r
            \<and> (http_status r < 200 \<or> 299 < http_status r))"
    using that by (auto simp: handleSubmit_rejected handleSubmit_not_ok ok_def)
  ultimately show ?thesis
    by (simp add: render_null)
qed

theorem transport_outcomes_witness:
  "handleSubmit live scenario_form =
     (scenario_form\<lparr>result := live_data\<rparr>, [scenario_request])
   \<and> handleSubmit unavailable scenario_form =
       (scenario_form\<lparr>error := ''Failed to process consultation. Please try again.''\<rparr>,
        [scenario_request])
   \<and> handleSubmit unreachable scenario_form =
       (scenario_form\<lparr>error := ''Failed to process consultation. Please try again.''\<rparr>,
        [scenario_request])"
proof -
  let ?ok = "\<lparr>http_status = 200, statusText = ''OK'', parsed = Inr live_data\<rparr>"
  let ?down = "\<lparr>http_status = 503, statusText = ''Service Unavailable'',
                parsed = Inl (Thrown ''SyntaxError: Unexpected token'')\<rparr>"
  let ?e = "Thrown ''TypeError: fetch failed''"
  have p: "form_payload (formData scenario_form) = scenario_request"
    by (simp add: form_payload_def scenario_form_def scenario_request_def)
  have a: "handleSubmit live scenario_form =
             (scenario_form\<lparr>loading := False, error := [], result := live_data\<rparr>,
              [form_payload (formData scenario_form)])"
    using transport_outcomes [of live scenario_form ?ok live_data ?e]
    by (simp add: live_def)
  have b: "handleSubmit unavailable scenario_form =
             (scenario_form\<lparr>loading := False, error := failure_message, result := JNull\<rparr>,
              [form_payload (formData scenario_form)])"
    using transport_outcomes [of unavailable scenario_form ?down live_data ?e]
    by (simp add: unavailable_def)
  have c: "handleSubmit unreachable scenario_form =
             (scenario_form\<lparr>loading := False, error := failure_message, result := JNull\<rparr>,
              [form_payload (formData scenario_form)])"
    using transport_outcomes [of unreachable scenario_form ?ok live_data ?e]
    by (simp add: unreachable_def)
  show ?thesis
    unfolding a b c p by (simp add: scenario_form_def failure_message_def)
qed

section \<open>The renderer on the fallback response\<close>

text \<open>
  C3.  The claim: the renderer shows nothing for an absent slot and never fails.  The three
  list slots are read with \<^verbatim>\<open>.map\<close> and no guard.  Submitting the scenario form while
  the backend is unreachable puts the gateway's fallback in \<^verbatim>\<open>result\<close>; that payload has
  no \<^verbatim>\<open>success_factors\<close>, and rendering it throws a \<open>TypeError\<close>.
\<close>

theorem renderer_throws_on_fallback:
  "result (fst (handleSubmit (api_consult unreachable) scenario_form)) =
     mock_object ''SaaS'' ''SMB''
   \<and> slot (mock_object ''SaaS'' ''SMB'') ''success_factors'' = None
   \<and> render_result (mock_object ''SaaS'' ''SMB'') = Inl TypeError"
proof -
  have p: "form_payload (formData scenario_form) = scenario_request"
    by (simp add: form_payload_def scenario_form_def scenario_request_def)
  have "api_consult unreachable scenario_request =
          Resolves \<lparr>http_status = 200, statusText = [],
                    parsed = Inr (mock_object ''SaaS'' ''SMB'')\<rparr>"
    by (simp add: api_consult_def scenario_unreachable)
  then have "result (fst (handleSubmit (api_consult unreachable) scenario_form)) =
               mock_object ''SaaS'' ''SMB''"
    by (simp add: handleSubmit_def fetch_def p ok_def)
  moreover have "slot (mock_object ''SaaS'' ''SMB'') ''success_factors'' = None"
    by (simp add: slot_def mock_object_def)
  moreover have "render_result (mock_object ''SaaS'' ''SMB'') = Inl TypeError"
    by (simp add: render_result_def mock_object_def impact_blocks_def)
  ultimately show ?thesis by simp
qed

section \<open>One attempt per external call\<close>

lemma consult_calls: "length (calls (consult_POST srv req)) \<le> 1"
proof (cases req)
  case (Inl e)
  then show ?thesis by (simp add: consult_POST_unparsed)
next
  case (Inr b)
  then show ?thesis
    by (cases "b = JNull") (simp_all add: consult_POST_unparsed consult_POST_non_null
        split: sum.splits)
qed

lemma signup_calls: "length (calls (signup_POST idp req)) \<le> 1"
  by (simp add: signup_POST_def auth_call_def Let_def
      split: sum.splits auth_outcome.splits option.splits)

lemma login_calls: "length (calls (login_POST idp req)) \<le> 1"
  by (simp add: login_POST_def auth_call_def Let_def
      split: sum.splits auth_outcome.splits option.splits)

lemma notify_calls: "calls (notify_POST req) = []"
  by (simp add: notify_POST_def Let_def split: sum.splits)

text \<open>
  C8.  Whatever the request and whatever the external service answers, the gateway sends at
  most one request to the reasoning service, the signup and login routes call the identity
  service at most once, and the notify route makes no outbound call: no path repeats a
  call.
\<close>

theorem no_retries:
  "length (calls (consult_POST srv consult_req)) \<le> 1
   \<and> length (calls (signup_POST idp signup_req)) \<le> 1
   \<and> length (calls (login_POST idp' login_req)) \<le> 1
   \<and> calls (notify_POST notify_req) = []"
  by (intro conjI consult_calls signup_calls login_calls notify_calls)

theorem no_retries_witness:
  "length (calls (consult_POST unavailable (Inr scenario_request))) \<le> 1
   \<and> length (calls (signup_POST identity_refuses (Inr signup_request))) \<le> 1
   \<and> length (calls (login_POST identity_down (Inr login_request))) \<le> 1
   \<and> calls (notify_POST (Inr notify_newsletter)) = []"
  by (rule no_retries)

section \<open>What the notify route validates\<close>

lemma read_prop_truthy: "truthy (Some v) \<Longrightarrow> read_prop (Some v) k = Inr (get_prop v k)"
  by (cases v) simp_all

lemma notify_status_400:
  "b \<noteq> JNull \<Longrightarrow>
   (status (response (notify_POST (Inr b))) = 400) =
     (\<not> truthy (get_prop b ''formData'') \<or> \<not> truthy (get_prop b ''type''))"
  by (simp add: notify_POST_def destructure_non_null Let_def error_response_def notify_error_def
      NextResponse_json_def split: sum.splits)

lemma console_log_convertible: "interpolate arg = Inr s \<Longrightarrow> console_log line arg = Inr ()"
  by (simp add: console_log_def split: option.splits)

lemma notify_accepts:
  assumes "get_prop b ''formData'' = Some fd" and "truthy (Some fd)"
    and "get_prop b ''type'' = Some (JStr t)" and "t \<noteq> []"
    and "interpolate (get_prop fd ''email'') = Inr m"
    and "ToString fd = Inr s"
  shows "notify_POST (Inr b) = \<lparr>response = notify_success, calls = []\<rparr>"
proof -
  have "b \<noteq> JNull"
    using assms(1) by (cases b) simp_all
  moreover have "notify_line (Some (JStr t)) (Some fd) =
                   Inr (''['' @ map upper t @ ''] Submission from '' @ m @ '':'')"
    using assms(2,5) by (simp add: notify_line_def read_prop_truthy)
  moreover have "console_log line (Some fd) = Inr ()" for line
    using assms(6) by (simp add: console_log_convertible)
  ultimately show ?thesis
    using assms(1-4)
    by (simp add: notify_POST_def destructure_non_null Let_def NextResponse_json_def
        notify_success_def)
qed

text \<open>
  The console line can throw: with \<^verbatim>\<open>%d\<close> as the email and a \<^verbatim>\<open>formData\<close> that has an
  own \<^verbatim>\<open>toString\<close> property, the format applies \<^verbatim>\<open>Number\<close> to \<^verbatim>\<open>formData\<close>, and the
  route answers 500.
\<close>

lemma notify_format_throws:
  "first_specifier ''[CONTACT] Submission from %d:'' = Some CHR ''d''
   \<and> status (response (notify_POST (Inr notify_format_request))) = 500"
  by (simp add: notify_format_request_def notify_POST_def notify_line_def console_log_def
      upper_def notify_error_def error_response_def NextResponse_json_def)

text \<open>
  C10, as claimed: every body whose \<^verbatim>\<open>formData\<close> and \<^verbatim>\<open>type\<close> are truthy gets 200, and
  400 is returned exactly when one of them is missing or falsy.  A truthy \<^verbatim>\<open>type\<close> that is
  not a string (here \<^verbatim>\<open>true\<close>) makes \<^verbatim>\<open>type.toUpperCase()\<close> throw, and the body
  \<^verbatim>\<open>null\<close>, which has neither field, cannot be destructured: both get 500.
\<close>

theorem notify_truthy_type_counterexample:
  "truthy (get_prop notify_boolean_type ''formData'')
   \<and> truthy (get_prop notify_boolean_type ''type'')
   \<and> status (response (notify_POST (Inr notify_boolean_type))) = 500
   \<and> status (response (notify_POST (Inr JNull))) = 500"
  by (simp add: notify_boolean_type_def notify_POST_def notify_line_def notify_error_def
      error_response_def NextResponse_json_def)

text \<open>
  C10, amended.  The notify route checks only the truthiness of \<^verbatim>\<open>formData\<close> and
  \<^verbatim>\<open>type\<close>.  For every body that parses to a non-null JSON value it returns 400 exactly
  when \<^verbatim>\<open>formData\<close> or \<^verbatim>\<open>type\<close> is missing or falsy.  When \<^verbatim>\<open>formData\<close> is truthy and
  converts to text, its \<^verbatim>\<open>email\<close> is absent or converts to text, and \<^verbatim>\<open>type\<close> is any
  non-empty string, one outside signup, consultation and contact included, it returns 200
  with \<^verbatim>\<open>{ success: true, message: 'Submission received' }\<close>.  (Every string, number
  and boolean converts to text, and so does every object and array that holds no object
  with an own \<^verbatim>\<open>toString\<close> property.)  A body that is not JSON, or is \<^verbatim>\<open>null\<close>, gets
  500.
\<close>

theorem notify_validation:
  "(b \<noteq> JNull \<longrightarrow>
      (status (response (notify_POST (Inr b))) = 400) =
        (\<not> truthy (get_prop b ''formData'') \<or> \<not> truthy (get_prop b ''type'')))
   \<and> (get_prop b ''formData'' = Some fd \<and> truthy (Some fd) \<and> ToString fd = Inr s
        \<and> get_prop b ''type'' = Some (JStr t) \<and> t \<noteq> []
        \<and> interpolate (get_prop fd ''email'') = Inr m \<longrightarrow>
      notify_POST (Inr b) = \<lparr>response = notify_success, calls = []\<rparr>)
   \<and> status (response (notify_POST (Inl e))) = 500
   \<and> status (response (notify_POST (Inr JNull))) = 500"
proof -
  have "status (response (notify_POST (Inl e))) = 500"
    and "status (response (notify_POST (Inr JNull))) = 500"
    by (simp_all add: notify_POST_def notify_error_def error_response_def NextResponse_json_def)
  then show ?thesis
    using notify_status_400 [of b] notify_accepts [of b fd t m s] by blast
qed

theorem notify_validation_witness:
  "notify_POST (Inr notify_newsletter) =
     \<lparr>response = \<lparr>status = 200,
        body = JObj [(''success'', JBool True), (''message'', JStr ''Submission received'')]\<rparr>,
      calls = []\<rparr>
   \<and> status (response (notify_POST (Inr (JObj [(''formData'', JObj [])])))) = 400
   \<and> status (response (notify_POST (Inr
        (JObj [(''formData'', JStr []), (''type'', JStr ''contact'')])))) = 400"
proof -
  let ?fd = "JObj [(''email'', JStr ''a@b.com'')]"
  let ?no_type = "JObj [(''formData'', JObj [])]"
  let ?empty_form = "JObj [(''formData'', JStr []), (''type'', JStr ''contact'')]"
  have "notify_POST (Inr notify_newsletter) = \<lparr>response = notify_success, calls = []\<rparr>"
    using notify_validation
            [of notify_newsletter ?fd "''[object Object]''" "''newsletter''" "''a@b.com''"]
    by (simp add: notify_newsletter_def)
  moreover have "status (response (notify_POST (Inr ?no_type))) = 400"
    using notify_validation [of ?no_type] by simp
  moreover have "status (response (notify_POST (Inr ?empty_form))) = 400"
    using notify_validation [of ?empty_form] by simp
  ultimately show ?thesis
    by (simp add: notify_success_def)
qed

end
